theory Spec2Isabelle
  imports Main "HOL-Library.Sublist"
begin

section \<open>Python values and exceptions\<close>

text \<open>
  The exception classes that the three source files raise, catch or can receive from the
  libraries they call. Only membership in the classes named by an \<open>except\<close> clause of
  the source matters: \<open>requests.RequestException\<close>, \<open>requests.exceptions.HTTPError\<close>,
  \<open>ValueError\<close>, \<open>httpx.HTTPStatusError\<close> and \<open>httpx.RequestError\<close>. Every class
  below is a subclass of \<open>Exception\<close>.
\<close>

datatype exn_class =
    PyException
  | PyValueError
  | PyKeyError
  | PyIndexError
  | PyTypeError
  | PyAttributeError
  | PyUnboundLocalError
  | PyOSError
  | PydanticValidationError
  | RequestsRequestException
  | RequestsHTTPError
  | RequestsJSONDecodeError
  | HttpxHTTPStatusError
  | HttpxRequestError
  | BotoCoreError
  | BotoClientError

text \<open>An exception value: its class and \<open>str(e)\<close>.\<close>

datatype exn = Exn (exn_cls: exn_class) (exn_str: string)

fun is_RequestException :: "exn_class \<Rightarrow> bool" where
  "is_RequestException RequestsRequestException = True"
| "is_RequestException RequestsHTTPError = True"
| "is_RequestException RequestsJSONDecodeError = True"
| "is_RequestException _ = False"

fun is_HTTPError :: "exn_class \<Rightarrow> bool" where
  "is_HTTPError RequestsHTTPError = True"
| "is_HTTPError _ = False"

fun is_ValueError :: "exn_class \<Rightarrow> bool" where
  "is_ValueError PyValueError = True"
| "is_ValueError PydanticValidationError = True"
| "is_ValueError RequestsJSONDecodeError = True"
| "is_ValueError _ = False"

fun is_HTTPStatusError :: "exn_class \<Rightarrow> bool" where
  "is_HTTPStatusError HttpxHTTPStatusError = True"
| "is_HTTPStatusError _ = False"

fun is_RequestError :: "exn_class \<Rightarrow> bool" where
  "is_RequestError HttpxRequestError = True"
| "is_RequestError _ = False"

text \<open>
  The dict-shaped payloads of the source are JSON values; \<open>JObj\<close> is a dict given by its
  items in order (keys distinct), and JSON numbers are taken to be integers.
\<close>

datatype json =
    JNull
  | JBool bool
  | JNum int
  | JStr string
  | JArr "json list"
  | JObj "(string \<times> json) list"

fun py_type_name :: "json \<Rightarrow> string" where
  "py_type_name JNull = ''NoneType''"
| "py_type_name (JBool _) = ''bool''"
| "py_type_name (JNum _) = ''int''"
| "py_type_name (JStr _) = ''str''"
| "py_type_name (JArr _) = ''list''"
| "py_type_name (JObj _) = ''dict''"

definition repr_str :: "string \<Rightarrow> string" where
  "repr_str k = [CHR 0x27] @ k @ [CHR 0x27]"

definition not_subscriptable :: "json \<Rightarrow> exn" where
  "not_subscriptable v =
     Exn PyTypeError ([CHR 0x27] @ py_type_name v @ [CHR 0x27] @ '' object is not subscriptable'')"

text \<open>\<open>v[k]\<close> for a string key \<open>k\<close>.\<close>

fun getitem :: "json \<Rightarrow> string \<Rightarrow> exn + json" where
  "getitem (JObj kvs) k =
     (case map_of kvs k of
        None \<Rightarrow> Inl (Exn PyKeyError (repr_str k))
      | Some v \<Rightarrow> Inr v)"
| "getitem (JArr xs) k =
     Inl (Exn PyTypeError ''list indices must be integers or slices, not str'')"
| "getitem (JStr s) k =
     Inl (Exn PyTypeError ''string indices must be integers, not 'str' '')"
| "getitem v k = Inl (not_subscriptable v)"

text \<open>\<open>v[0]\<close>.\<close>

fun getitem0 :: "json \<Rightarrow> exn + json" where
  "getitem0 (JArr []) = Inl (Exn PyIndexError ''list index out of range'')"
| "getitem0 (JArr (x # xs)) = Inr x"
| "getitem0 (JStr []) = Inl (Exn PyIndexError ''string index out of range'')"
| "getitem0 (JStr (c # cs)) = Inr (JStr [c])"
| "getitem0 (JObj kvs) = Inl (Exn PyKeyError ''0'')"
| "getitem0 v = Inl (not_subscriptable v)"

text \<open>Truth value of \<open>v\<close>, as \<open>if not v\<close> tests it.\<close>

fun truthy :: "json \<Rightarrow> bool" where
  "truthy JNull = False"
| "truthy (JBool b) = b"
| "truthy (JNum n) = (n \<noteq> 0)"
| "truthy (JStr s) = (s \<noteq> [])"
| "truthy (JArr xs) = (xs \<noteq> [])"
| "truthy (JObj kvs) = (kvs \<noteq> [])"

definition is_substr :: "string \<Rightarrow> string \<Rightarrow> bool" where
  "is_substr k s = (\<exists>t \<in> set (suffixes s). prefix k t)"

text \<open>\<open>k in v\<close> for a string \<open>k\<close>.\<close>

fun py_in :: "string \<Rightarrow> json \<Rightarrow> exn + bool" where
  "py_in k (JObj kvs) = Inr (k \<in> set (map fst kvs))"
| "py_in k (JArr xs) = Inr (JStr k \<in> set xs)"
| "py_in k (JStr s) = Inr (is_substr k s)"
| "py_in k v =
     Inl (Exn PyTypeError (''argument of type '' @ [CHR 0x27] @ py_type_name v @ [CHR 0x27]
                            @ '' is not iterable''))"

text \<open>The elements that \<open>for x in v\<close> visits.\<close>

fun py_iter :: "json \<Rightarrow> exn + json list" where
  "py_iter (JArr xs) = Inr xs"
| "py_iter (JObj kvs) = Inr (map (\<lambda>kv. JStr (fst kv)) kvs)"
| "py_iter (JStr s) = Inr (map (\<lambda>c. JStr [c]) s)"
| "py_iter v =
     Inl (Exn PyTypeError ([CHR 0x27] @ py_type_name v @ [CHR 0x27] @ '' object is not iterable''))"

text \<open>\<open>v > 0\<close>.\<close>

fun py_gt0 :: "json \<Rightarrow> exn + bool" where
  "py_gt0 (JNum n) = Inr (n > 0)"
| "py_gt0 (JBool b) = Inr b"
| "py_gt0 v =
     Inl (Exn PyTypeError ([CHR 0x27] @ ''>'' @ [CHR 0x27] @ '' not supported between instances of ''
                            @ [CHR 0x27] @ py_type_name v @ [CHR 0x27] @ '' and 'int' ''))"

text \<open>Decimal text of a natural number, as an f-string prints an \<open>int\<close>.\<close>

function str_nat :: "nat \<Rightarrow> string" where
  "str_nat n =
     (if n < 10 then [''0123456789'' ! n]
      else str_nat (n div 10) @ [''0123456789'' ! (n mod 10)])"
  by pat_completeness auto
termination
  by (relation "measure (\<lambda>n. n)") auto

declare str_nat.simps [simp del]

text \<open>\<open>str(x)\<close> of an optional string, \<open>None\<close> printing as \<open>None\<close>.\<close>

fun str_opt :: "string option \<Rightarrow> string" where
  "str_opt None = ''None''"
| "str_opt (Some s) = s"

section \<open>Data model\<close>

text \<open>The pydantic models of \<open>main.py\<close>; every field is a required \<open>str\<close>.\<close>

record CurateDetails =
  apiKey :: string
  siteUrl :: string

record SharepointDetails =
  drivePath :: string
  siteId :: string

record UploadItem =
  item_id :: string
  spId :: string
  driveId :: string
  item_name :: string
  fileSize :: string
  item_type :: string

record UserInfo =
  user_name :: string
  user_email :: string

record SharePointPackage =
  curateDetails :: CurateDetails
  sharepointDetails :: SharepointDetails
  uploadItems :: "UploadItem list"
  userInfo :: UserInfo

text \<open>
  \<open>UploadItem(**kwargs)\<close>: pydantic validation of the keyword arguments against the six
  required string fields. A missing field, or a value that is not a string, raises
  \<open>ValidationError\<close>.
\<close>

definition validation_error :: exn where
  "validation_error = Exn PydanticValidationError ''validation error for UploadItem''"

definition UploadItem_init :: "(string \<times> json) list \<Rightarrow> exn + UploadItem" where
  "UploadItem_init kwargs =
     (case (map_of kwargs ''id'', map_of kwargs ''spId'', map_of kwargs ''driveId'',
            map_of kwargs ''name'', map_of kwargs ''fileSize'', map_of kwargs ''type'') of
        (Some (JStr a), Some (JStr b), Some (JStr c), Some (JStr d), Some (JStr e), Some (JStr f)) \<Rightarrow>
          Inr \<lparr>item_id = a, spId = b, driveId = c, item_name = d, fileSize = e, item_type = f\<rparr>
      | _ \<Rightarrow> Inl validation_error)"

section \<open>The outside world\<close>

datatype http_method = GET | POST | PUT | PATCH

text \<open>
  What a run does to the outside world, in order: HTTP requests through \<open>requests\<close> and
  \<open>httpx\<close>, calls to \<open>boto3\<close>, and file-system calls. Request headers are not recorded,
  except the \<open>Content-Length\<close> that the streaming upload forwards.
\<close>

datatype event =
    Requests http_method string "json option"
  | HttpxStream http_method string "string option"
  | Boto3Client string string
  | GeneratePresignedUrl string
  | PutObject string string string
  | TempCreate
  | TempWrite string string
  | TempFlush string
  | TempFsync string
  | GetSize string
  | OpenRead string
  | Unlink string
  | FileWrite string string

text \<open>
  An HTTP response as the source reads it: \<open>status_code\<close>, what \<open>raise_for_status()\<close>
  raises (if anything), the \<open>Content-Length\<close> header, the body \<open>content\<close>, what
  \<open>json()\<close> returns or raises, and \<open>text\<close>.
\<close>

record response =
  status_code :: nat
  raise_for_status :: "exn option"
  content_length_header :: "string option"
  content :: string
  resp_json :: "exn + json"
  resp_text :: string

text \<open>
  The environment answers every library call, given the events so far and the call's
  arguments: it returns a value or raises (\<open>Inl\<close>). \<open>py_int\<close> is Python's \<open>int(s)\<close>,
  \<open>None\<close> standing for its \<open>ValueError\<close>.
\<close>

record env =
  py_int :: "string \<Rightarrow> int option"
  now_stamp :: "event list \<Rightarrow> string"
  requests_get :: "event list \<Rightarrow> string \<Rightarrow> exn + response"
  requests_post :: "event list \<Rightarrow> string \<Rightarrow> json \<Rightarrow> exn + response"
  requests_put :: "event list \<Rightarrow> string \<Rightarrow> json \<Rightarrow> exn + response"
  requests_patch :: "event list \<Rightarrow> string \<Rightarrow> json \<Rightarrow> exn + response"
  httpx_stream :: "event list \<Rightarrow> http_method \<Rightarrow> string \<Rightarrow> exn + response"
  boto3_client :: "event list \<Rightarrow> string \<Rightarrow> string \<Rightarrow> exn option"
  generate_presigned_url :: "event list \<Rightarrow> string \<Rightarrow> exn + string"
  put_object :: "event list \<Rightarrow> string \<Rightarrow> string \<Rightarrow> string \<Rightarrow> exn option"
  tempfile_create :: "event list \<Rightarrow> exn + string"
  tempfile_write :: "event list \<Rightarrow> string \<Rightarrow> string \<Rightarrow> exn option"
  tempfile_flush :: "event list \<Rightarrow> string \<Rightarrow> exn option"
  os_fsync :: "event list \<Rightarrow> string \<Rightarrow> exn option"
  os_getsize :: "event list \<Rightarrow> string \<Rightarrow> exn + nat"
  open_read :: "event list \<Rightarrow> string \<Rightarrow> exn option"
  os_unlink :: "event list \<Rightarrow> string \<Rightarrow> exn option"
  file_write :: "event list \<Rightarrow> string \<Rightarrow> string \<Rightarrow> exn option"

text \<open>
  A source function that performs calls returns what it returns or raises, paired with
  the events it emitted; its first argument after the environment's is the history
  before the call.
\<close>

type_synonym 'a io = "(exn + 'a) \<times> event list"

text \<open>The result dicts \<open>{'success': True, 'data': d}\<close> and \<open>{'success': False, 'error': e}\<close>.\<close>

datatype api_result = ApiOk json | ApiErr json

fun api_success :: "api_result \<Rightarrow> bool" where
  "api_success (ApiOk d) = True"
| "api_success (ApiErr e) = False"

section \<open>graph\_tools.py\<close>

definition graph_base :: string where
  "graph_base = ''https://graph.microsoft.com/v1.0/sites/''"

text \<open>
  \<open>AzureAuth.get_access_token\<close>. \<open>upload_task\<close> builds the client as
  \<open>AzureAuth(CLIENT_ID, TENANT_ID, CLIENT_SECRET)\<close> with the three constants empty, so
  the payload carries empty credentials. A status other than 200 for which
  \<open>raise_for_status()\<close> does not raise returns \<open>None\<close>.
\<close>

definition token_url :: "string \<Rightarrow> string" where
  "token_url tenant_id = ''https://login.microsoftonline.com/'' @ tenant_id @ ''/oauth2/v2.0/token''"

definition token_payload :: "string \<Rightarrow> string \<Rightarrow> json" where
  "token_payload client_id client_secret =
     JObj [(''grant_type'', JStr ''client_credentials''), (''client_id'', JStr client_id),
           (''client_secret'', JStr client_secret),
           (''scope'', JStr ''https://graph.microsoft.com/.default'')]"

definition get_access_token :: "env \<Rightarrow> string \<Rightarrow> string \<Rightarrow> string \<Rightarrow> event list \<Rightarrow> string option io" where
  "get_access_token E tenant_id client_id client_secret h =
     (let url = token_url tenant_id;
          payload = token_payload client_id client_secret;
          ev = Requests POST url (Some payload)
      in case requests_post E h url payload of
           Inl e \<Rightarrow> (Inl e, [ev])
         | Inr r \<Rightarrow>
             if status_code r = 200 then
               (case resp_json r of
                  Inl e \<Rightarrow> (Inl e, [ev])
                | Inr data \<Rightarrow>
                    (case getitem data ''access_token'' of
                       Inl e \<Rightarrow> (Inl e, [ev])
                     | Inr (JStr tok) \<Rightarrow>
                         (case file_write E (h @ [ev]) ''access_token.txt'' tok of
                            Some e \<Rightarrow> (Inl e, [ev, FileWrite ''access_token.txt'' tok])
                          | None \<Rightarrow> (Inr (Some tok), [ev, FileWrite ''access_token.txt'' tok]))
                     | Inr v \<Rightarrow>
                         (Inl (Exn PyTypeError (''write() argument must be str, not '' @ py_type_name v)),
                          [ev])))
             else
               (case raise_for_status r of
                  Some e \<Rightarrow> (Inl e, [ev])
                | None \<Rightarrow> (Inr None, [ev])))"

text \<open>
  The handler of \<open>list_files_in_folder\<close> catches \<open>HTTPError\<close> only and reads
  \<open>response.json()\<close> again; if \<open>requests.get\<close> itself raised it, \<open>response\<close> is unbound.
\<close>

definition unbound_response :: exn where
  "unbound_response =
     Exn PyUnboundLocalError ''cannot access local variable 'response' where it is not associated with a value''"

definition list_files_in_folder :: "env \<Rightarrow> string \<Rightarrow> string \<Rightarrow> string \<Rightarrow> string option \<Rightarrow> event list \<Rightarrow> json io" where
  "list_files_in_folder E site_id drive_id folder_id access_token h =
     (let url = graph_base @ site_id @ ''/drives/'' @ drive_id @ ''/items/'' @ folder_id @ ''/children'';
          ev = Requests GET url None
      in case requests_get E h url of
           Inl e \<Rightarrow>
             (if is_HTTPError (exn_cls e) then Inl unbound_response else Inl e, [ev])
         | Inr r \<Rightarrow>
             (case (case raise_for_status r of Some e \<Rightarrow> Inl e | None \<Rightarrow> resp_json r) of
                Inr d \<Rightarrow> (Inr d, [ev])
              | Inl e \<Rightarrow>
                  if is_HTTPError (exn_cls e) then
                    (case resp_json r of
                       Inl e' \<Rightarrow> (Inl e', [ev])
                     | Inr d \<Rightarrow> (Inr (JObj [(''error'', JStr (exn_str e)), (''details'', d)]), [ev]))
                  else (Inl e, [ev])))"

definition search_files_by_filename :: "env \<Rightarrow> string \<Rightarrow> string \<Rightarrow> string option \<Rightarrow> string \<Rightarrow> event list \<Rightarrow> json io" where
  "search_files_by_filename E site_id drive_id access_token filename h =
     (let url = graph_base @ site_id @ ''/drives/'' @ drive_id @ ''/root/search(q=''
                  @ [CHR 0x27] @ filename @ [CHR 0x27] @ '')'';
          ev = Requests GET url None
      in case requests_get E h url of
           Inl e \<Rightarrow>
             (if is_HTTPError (exn_cls e) then Inl unbound_response else Inl e, [ev])
         | Inr r \<Rightarrow>
             (case (case raise_for_status r of Some e \<Rightarrow> Inl e | None \<Rightarrow> resp_json r) of
                Inr d \<Rightarrow> (Inr d, [ev])
              | Inl e \<Rightarrow>
                  if is_HTTPError (exn_cls e) then
                    (if content r \<noteq> [] then
                       (case resp_json r of
                          Inl e' \<Rightarrow> (Inl e', [ev])
                        | Inr d \<Rightarrow> (Inr (JObj [(''error'', JStr (exn_str e)), (''details'', d)]), [ev]))
                     else
                       (Inr (JObj [(''error'', JStr (exn_str e)),
                                   (''details'', JStr ''No additional details available.'')]), [ev]))
                  else (Inl e, [ev])))"

text \<open>
  \<open>update_drive_item_metadata\<close>: the search (whose result is only printed) and then the
  PATCH of the fields. A status other than 200 gives a failure dict; nothing is caught
  around \<open>requests.patch\<close> or the search.
\<close>

definition fields_url :: "string \<Rightarrow> string \<Rightarrow> string \<Rightarrow> string" where
  "fields_url site_id drive_id iid =
     graph_base @ site_id @ ''/drives/'' @ drive_id @ ''/items/'' @ iid @ ''/listItem/fields''"

definition update_drive_item_metadata :: "env \<Rightarrow> string \<Rightarrow> string \<Rightarrow> string \<Rightarrow> string \<Rightarrow> json \<Rightarrow> string option \<Rightarrow> event list \<Rightarrow> api_result io" where
  "update_drive_item_metadata E site_id drive_id iid iname metadata access_token h =
     (case search_files_by_filename E site_id drive_id access_token iname h of
        (Inl e, es) \<Rightarrow> (Inl e, es)
      | (Inr found, es) \<Rightarrow>
          (let url = fields_url site_id drive_id iid;
               ev = Requests PATCH url (Some metadata)
           in case requests_patch E (h @ es) url metadata of
                Inl e \<Rightarrow> (Inl e, es @ [ev])
              | Inr r \<Rightarrow>
                  if status_code r = 200 then
                    (case resp_json r of
                       Inl e \<Rightarrow> (Inl e, es @ [ev])
                     | Inr d \<Rightarrow> (Inr (ApiOk d), es @ [ev]))
                  else
                    (case resp_json r of
                       Inr d \<Rightarrow> (Inr (ApiErr d), es @ [ev])
                     | Inl e \<Rightarrow>
                         if is_ValueError (exn_cls e)
                         then (Inr (ApiErr (JStr (resp_text r))), es @ [ev])
                         else (Inl e, es @ [ev]))))"

section \<open>uploader.py\<close>

definition quarantine :: "string \<Rightarrow> string" where
  "quarantine path = ''quarantine/SharePoint Uploads/'' @ path"

text \<open>
  \<open>create_empty_folder\<close>: the POST, \<open>raise_for_status()\<close> and \<open>json()\<close> are inside a
  \<open>try\<close> whose handler turns a \<open>requests.RequestException\<close> into a failure dict; any
  other exception propagates.
\<close>

definition create_folder_body :: "string \<Rightarrow> json" where
  "create_folder_body folder_name =
     JObj [(''Nodes'', JArr [JObj [(''Path'', JStr (quarantine folder_name))]]),
           (''Recursive'', JBool True)]"

definition create_folder_event :: "CurateDetails \<Rightarrow> string \<Rightarrow> event" where
  "create_folder_event curate folder_name =
     Requests POST (''https://'' @ siteUrl curate @ ''/a/tree/create'')
       (Some (create_folder_body folder_name))"

definition create_empty_folder :: "env \<Rightarrow> string \<Rightarrow> CurateDetails \<Rightarrow> event list \<Rightarrow> api_result io" where
  "create_empty_folder E folder_name curate h =
     (let url = ''https://'' @ siteUrl curate @ ''/a/tree/create'';
          body = create_folder_body folder_name
      in case (case requests_post E h url body of
                 Inl e \<Rightarrow> Inl e
               | Inr r \<Rightarrow>
                   (case raise_for_status r of
                      Some e \<Rightarrow> Inl e
                    | None \<Rightarrow> resp_json r)) of
           Inr d \<Rightarrow> (Inr (ApiOk d), [create_folder_event curate folder_name])
         | Inl e \<Rightarrow>
             if is_RequestException (exn_cls e)
             then (Inr (ApiErr (JStr (exn_str e))), [create_folder_event curate folder_name])
             else (Inl e, [create_folder_event curate folder_name]))"

definition policies :: json where
  "policies =
     JArr [JObj [(''Action'', JStr ''READ''), (''Effect'', JStr ''allow''), (''Subject'', JStr ''*'')],
           JObj [(''Action'', JStr ''WRITE''), (''Effect'', JStr ''allow''), (''Subject'', JStr ''*'')]]"

definition user_meta_body :: "json \<Rightarrow> (string \<times> string) list \<Rightarrow> json" where
  "user_meta_body node_uuid namespace_value_pairs =
     JObj [(''MetaDatas'',
            JArr (map (\<lambda>(namespace, v).
                         JObj [(''NodeUuid'', node_uuid), (''Namespace'', JStr namespace),
                               (''JsonValue'', JStr ([CHR 0x22] @ v @ [CHR 0x22])),
                               (''Policies'', policies)])
                      namespace_value_pairs)),
           (''Operation'', JStr ''PUT'')]"

definition user_meta_event :: "CurateDetails \<Rightarrow> json \<Rightarrow> (string \<times> string) list \<Rightarrow> event" where
  "user_meta_event curate node_uuid nvs =
     Requests PUT (''https://'' @ siteUrl curate @ ''/a/user-meta/update'')
       (Some (user_meta_body node_uuid nvs))"

definition update_user_meta :: "env \<Rightarrow> json \<Rightarrow> CurateDetails \<Rightarrow> (string \<times> string) list \<Rightarrow> event list \<Rightarrow> api_result io" where
  "update_user_meta E node_uuid curate namespace_value_pairs h =
     (let url = ''https://'' @ siteUrl curate @ ''/a/user-meta/update'';
          body = user_meta_body node_uuid namespace_value_pairs
      in case (case requests_put E h url body of
                 Inl e \<Rightarrow> Inl e
               | Inr r \<Rightarrow>
                   (case raise_for_status r of
                      Some e \<Rightarrow> Inl e
                    | None \<Rightarrow> resp_json r)) of
           Inr d \<Rightarrow> (Inr (ApiOk d), [user_meta_event curate node_uuid namespace_value_pairs])
         | Inl e \<Rightarrow>
             if is_RequestException (exn_cls e)
             then (Inr (ApiErr (JStr (exn_str e))),
                   [user_meta_event curate node_uuid namespace_value_pairs])
             else (Inl e, [user_meta_event curate node_uuid namespace_value_pairs]))"

text \<open>
  \<open>build_presigned_put_url\<close>: the boto3 client is built with the fixed key
  \<open>gateway\<close>; boto errors from signing are printed and raised again.
\<close>

record presigned =
  pre_path :: string
  pre_url :: string
  pre_bearer :: string

definition build_presigned_put_url :: "env \<Rightarrow> string \<Rightarrow> CurateDetails \<Rightarrow> event list \<Rightarrow> presigned io" where
  "build_presigned_put_url E path curate h =
     (let target_path = quarantine path;
          ev1 = Boto3Client (''https://'' @ siteUrl curate) ''gateway''
      in case boto3_client E h (''https://'' @ siteUrl curate) ''gateway'' of
           Some e \<Rightarrow> (Inl e, [ev1])
         | None \<Rightarrow>
             (case generate_presigned_url E (h @ [ev1]) target_path of
                Inl e \<Rightarrow> (Inl e, [ev1, GeneratePresignedUrl target_path])
              | Inr signed_url \<Rightarrow>
                  (Inr \<lparr>pre_path = path, pre_url = signed_url, pre_bearer = apiKey curate\<rparr>,
                   [ev1, GeneratePresignedUrl target_path])))"

text \<open>
  The uniform result dict of a transfer: \<open>success\<close>, \<open>status\<close> (absent on the failures of
  the streaming path), \<open>error\<close> (absent on success) and \<open>item\<close>.
\<close>

record transfer_result =
  t_success :: bool
  t_status :: "nat option"
  t_error :: "string option"
  t_item :: string

text \<open>
  \<open>stream_graph_file_to_s3\<close>: forwards the source's \<open>Content-Length\<close> (default \<open>0\<close>)
  and PUTs the byte iterator of the source response to the presigned URL. The two httpx
  error classes become failure dicts; any other exception propagates.
\<close>

definition stream_graph_file_to_s3 :: "env \<Rightarrow> response \<Rightarrow> presigned \<Rightarrow> event list \<Rightarrow> transfer_result io" where
  "stream_graph_file_to_s3 E graph_response s3_presigned_data h =
     (let s3_url = pre_url s3_presigned_data;
          cl = (case content_length_header graph_response of None \<Rightarrow> ''0'' | Some v \<Rightarrow> v);
          ev = HttpxStream PUT s3_url (Some cl)
      in case (case httpx_stream E h PUT s3_url of
                 Inl e \<Rightarrow> Inl e
               | Inr s3_response \<Rightarrow>
                   (case raise_for_status s3_response of
                      Some e \<Rightarrow> Inl e
                    | None \<Rightarrow> Inr (status_code s3_response))) of
           Inr st \<Rightarrow>
             (Inr \<lparr>t_success = True, t_status = Some st, t_error = None,
                   t_item = pre_path s3_presigned_data\<rparr>, [ev])
         | Inl e \<Rightarrow>
             if is_HTTPStatusError (exn_cls e) \<or> is_RequestError (exn_cls e)
             then (Inr \<lparr>t_success = False, t_status = None, t_error = Some (exn_str e),
                        t_item = pre_path s3_presigned_data\<rparr>, [ev])
             else (Inl e, [ev]))"

text \<open>
  The \<open>try\<close> block of \<open>upload_large_graph_file_to_s3\<close>: download the whole body with
  \<open>requests.get\<close>, write it to a \<open>NamedTemporaryFile(delete=False)\<close>, compare the size
  of the file on disk with \<open>len(graph_response.content)\<close>, upload the file with
  \<open>put_object\<close>, and unlink it.
\<close>

definition upload_large_body :: "env \<Rightarrow> string \<Rightarrow> string option \<Rightarrow> string \<Rightarrow> CurateDetails \<Rightarrow> event list \<Rightarrow> transfer_result io" where
  "upload_large_body E graph_file_url graph_access_token curate_path curate h =
     (let key = quarantine curate_path;
          endpoint_url = ''https://'' @ siteUrl curate;
          g = Requests GET graph_file_url None
      in case requests_get E h graph_file_url of
           Inl e \<Rightarrow> (Inl e, [g])
         | Inr r \<Rightarrow>
         (case raise_for_status r of
           Some e \<Rightarrow> (Inl e, [g])
         | None \<Rightarrow>
         if length (content r) = 0 then (Inl (Exn PyValueError ''File size is 0''), [g])
         else
         (case tempfile_create E (h @ [g]) of
           Inl e \<Rightarrow> (Inl e, [g, TempCreate])
         | Inr p \<Rightarrow>
         (case tempfile_write E (h @ [g, TempCreate]) p (content r) of
           Some e \<Rightarrow> (Inl e, [g, TempCreate, TempWrite p (content r)])
         | None \<Rightarrow>
         (case tempfile_flush E (h @ [g, TempCreate, TempWrite p (content r)]) p of
           Some e \<Rightarrow> (Inl e, [g, TempCreate, TempWrite p (content r), TempFlush p])
         | None \<Rightarrow>
         (case os_fsync E (h @ [g, TempCreate, TempWrite p (content r), TempFlush p]) p of
           Some e \<Rightarrow> (Inl e, [g, TempCreate, TempWrite p (content r), TempFlush p, TempFsync p])
         | None \<Rightarrow>
         (let w = [g, TempCreate, TempWrite p (content r), TempFlush p, TempFsync p]
          in case os_getsize E (h @ w) p of
           Inl e \<Rightarrow> (Inl e, w @ [GetSize p])
         | Inr sz \<Rightarrow>
         if sz \<noteq> length (content r) then
           (case os_getsize E (h @ w @ [GetSize p]) p of
              Inl e \<Rightarrow> (Inl e, w @ [GetSize p, GetSize p])
            | Inr sz2 \<Rightarrow>
                (Inl (Exn PyValueError (''File size mismatch: expected '' @ str_nat (length (content r))
                                         @ '', got '' @ str_nat sz2)),
                 w @ [GetSize p, GetSize p]))
         else
         (let c = w @ [GetSize p, Boto3Client endpoint_url (apiKey curate)]
          in case boto3_client E (h @ w @ [GetSize p]) endpoint_url (apiKey curate) of
           Some e \<Rightarrow> (Inl e, c)
         | None \<Rightarrow>
         (case open_read E (h @ c) p of
           Some e \<Rightarrow> (Inl e, c @ [OpenRead p])
         | None \<Rightarrow>
         (case put_object E (h @ c @ [OpenRead p]) ''io'' key p of
           Some e \<Rightarrow> (Inl e, c @ [OpenRead p, PutObject ''io'' key p])
         | None \<Rightarrow>
         (case os_unlink E (h @ c @ [OpenRead p, PutObject ''io'' key p]) p of
           Some e \<Rightarrow> (Inl e, c @ [OpenRead p, PutObject ''io'' key p, Unlink p])
         | None \<Rightarrow>
             (Inr \<lparr>t_success = True, t_status = Some 200, t_error = None, t_item = curate_path\<rparr>,
              c @ [OpenRead p, PutObject ''io'' key p, Unlink p]))))))))))))"

text \<open>
  \<open>upload_large_graph_file_to_s3\<close>: the handler \<open>except Exception\<close> around the block
  above returns a failure dict and does nothing else.
\<close>

definition upload_large_graph_file_to_s3 :: "env \<Rightarrow> string \<Rightarrow> string option \<Rightarrow> string \<Rightarrow> CurateDetails \<Rightarrow> event list \<Rightarrow> transfer_result io" where
  "upload_large_graph_file_to_s3 E graph_file_url graph_access_token curate_path curate h =
     (case upload_large_body E graph_file_url graph_access_token curate_path curate h of
        (Inr res, es) \<Rightarrow> (Inr res, es)
      | (Inl e, es) \<Rightarrow>
          (Inr \<lparr>t_success = False, t_status = Some 500, t_error = Some (exn_str e),
                t_item = curate_path\<rparr>, es))"

definition default_multipart_threshold :: int where
  "default_multipart_threshold = 100 * 1024 * 1024"

definition invalid_literal :: "string \<Rightarrow> exn" where
  "invalid_literal s =
     Exn PyValueError (''invalid literal for int() with base 10: '' @ repr_str s)"

text \<open>
  \<open>upload_graph_file_to_s3\<close>: \<open>int(file_size) >= multipart_threshold\<close> selects the
  download-then-upload function; otherwise a presigned URL is built (outside the
  \<open>try\<close>) and the source stream is piped to it. Only \<open>httpx.HTTPStatusError\<close> is caught.
\<close>

definition upload_graph_file_to_s3 :: "env \<Rightarrow> string \<Rightarrow> string \<Rightarrow> CurateDetails \<Rightarrow> string option \<Rightarrow> string \<Rightarrow> int \<Rightarrow> event list \<Rightarrow> transfer_result io" where
  "upload_graph_file_to_s3 E graph_file_url curate_path curate graph_access_token file_size multipart_threshold h =
     (case py_int E file_size of
        None \<Rightarrow> (Inl (invalid_literal file_size), [])
      | Some n \<Rightarrow>
          if n \<ge> multipart_threshold then
            upload_large_graph_file_to_s3 E graph_file_url graph_access_token curate_path curate h
          else
            (case build_presigned_put_url E curate_path curate h of
               (Inl e, es) \<Rightarrow> (Inl e, es)
             | (Inr s3_presigned_data, es) \<Rightarrow>
                 (case httpx_stream E (h @ es) GET graph_file_url of
                    Inl e \<Rightarrow>
                      if is_HTTPStatusError (exn_cls e)
                      then (Inr \<lparr>t_success = False, t_status = None, t_error = Some (exn_str e),
                                 t_item = pre_path s3_presigned_data\<rparr>,
                            es @ [HttpxStream GET graph_file_url None])
                      else (Inl e, es @ [HttpxStream GET graph_file_url None])
                  | Inr graph_response \<Rightarrow>
                      (case stream_graph_file_to_s3 E graph_response s3_presigned_data
                              (h @ es @ [HttpxStream GET graph_file_url None]) of
                         (Inr res, es2) \<Rightarrow>
                           (Inr res, es @ [HttpxStream GET graph_file_url None] @ es2)
                       | (Inl e, es2) \<Rightarrow>
                           if is_HTTPStatusError (exn_cls e)
                           then (Inr \<lparr>t_success = False, t_status = None,
                                      t_error = Some (exn_str e),
                                      t_item = pre_path s3_presigned_data\<rparr>,
                                 es @ [HttpxStream GET graph_file_url None] @ es2)
                           else (Inl e, es @ [HttpxStream GET graph_file_url None] @ es2)))))"

section \<open>main.py\<close>

text \<open>The dicts \<open>{'success': True, 'item': i}\<close> and \<open>{'success': False, 'message': m}\<close>.\<close>

datatype item_result = ItemSuccess string | ItemFailure string

fun item_success :: "item_result \<Rightarrow> bool" where
  "item_success (ItemSuccess i) = True"
| "item_success (ItemFailure m) = False"

definition size_limit_message :: string where
  "size_limit_message =
     ''File size is too large. Please use the Soteria+ command line client or sftp for uploads over 10gb.''"

text \<open>\<open>r['data']['Children'][0]['Uuid']\<close>.\<close>

fun folder_uuid_of :: "api_result \<Rightarrow> exn + json" where
  "folder_uuid_of (ApiOk d) =
     (case getitem d ''Children'' of
        Inl e \<Rightarrow> Inl e
      | Inr c \<Rightarrow> (case getitem0 c of Inl e \<Rightarrow> Inl e | Inr n \<Rightarrow> getitem n ''Uuid''))"
| "folder_uuid_of (ApiErr e) = Inl (Exn PyKeyError (repr_str ''data''))"

definition contributor :: "UserInfo \<Rightarrow> (string \<times> string) list" where
  "contributor user = [(''usermeta-contributor'', user_name user @ '':'' @ user_email user)]"

definition content_url :: "SharepointDetails \<Rightarrow> UploadItem \<Rightarrow> string" where
  "content_url sp item =
     graph_base @ siteId sp @ ''/drives/'' @ driveId item @ ''/items/'' @ item_id item @ ''/content''"

text \<open>
  \<open>folder\<close> is \<open>None\<close> for a top-level file; \<open>if folder\<close> is false for \<open>None\<close> and for
  the empty string.
\<close>

definition dest_path :: "string \<Rightarrow> string option \<Rightarrow> string \<Rightarrow> string" where
  "dest_path container folder nm =
     (case folder of
        Some f \<Rightarrow> if f \<noteq> [] then container @ ''/'' @ f @ ''/'' @ nm else container @ ''/'' @ nm
      | None \<Rightarrow> container @ ''/'' @ nm)"

text \<open>The \<open>try\<close> block of \<open>process_item\<close>.\<close>

definition process_item_body :: "env \<Rightarrow> SharepointDetails \<Rightarrow> CurateDetails \<Rightarrow> UserInfo \<Rightarrow> UploadItem \<Rightarrow> string option \<Rightarrow> string option \<Rightarrow> string \<Rightarrow> event list \<Rightarrow> item_result io" where
  "process_item_body E sp curate user item folder access_token container h =
     (case py_int E (fileSize item) of
        None \<Rightarrow> (Inl (invalid_literal (fileSize item)), [])
      | Some n \<Rightarrow>
        if n > 1 * 1024 * 1024 * 1024 then (Inl (Exn PyException size_limit_message), [])
        else
        (case create_empty_folder E container curate h of
           (Inl e, es1) \<Rightarrow> (Inl e, es1)
         | (Inr r, es1) \<Rightarrow>
           if \<not> api_success r
           then (Inl (Exn PyException ''Error creating scoped upload folder: None''), es1)
           else
           (case folder_uuid_of r of
              Inl e \<Rightarrow> (Inl e, es1)
            | Inr folder_uuid \<Rightarrow>
              if \<not> truthy folder_uuid
              then (Inl (Exn PyException ''Error creating scoped upload folder: No UUID returned''), es1)
              else
              (case update_user_meta E folder_uuid curate (contributor user) (h @ es1) of
                 (Inl e, es2) \<Rightarrow> (Inl e, es1 @ es2)
               | (Inr r2, es2) \<Rightarrow>
                 if \<not> api_success r2
                 then (Inl (Exn PyException ''Error updating user meta: None''), es1 @ es2)
                 else
                 (case upload_graph_file_to_s3 E (content_url sp item)
                         (dest_path container folder (item_name item)) curate access_token
                         (fileSize item) default_multipart_threshold (h @ es1 @ es2) of
                    (Inl e, es3) \<Rightarrow> (Inl e, es1 @ es2 @ es3)
                  | (Inr upload_result, es3) \<Rightarrow>
                    if \<not> t_success upload_result
                    then (Inl (Exn PyException (''Upload failed: '' @ str_opt (t_error upload_result))),
                          es1 @ es2 @ es3)
                    else (Inr (ItemSuccess (t_item upload_result)), es1 @ es2 @ es3))))))"

text \<open>\<open>process_item\<close>: the handler \<open>except Exception\<close> returns the failure dict.\<close>

definition process_item :: "env \<Rightarrow> SharepointDetails \<Rightarrow> CurateDetails \<Rightarrow> UserInfo \<Rightarrow> UploadItem \<Rightarrow> string option \<Rightarrow> string option \<Rightarrow> string \<Rightarrow> event list \<Rightarrow> item_result io" where
  "process_item E sp curate user item folder access_token container h =
     (case process_item_body E sp curate user item folder access_token container h of
        (Inr res, es) \<Rightarrow> (Inr res, es)
      | (Inl e, es) \<Rightarrow> (Inr (ItemFailure (exn_str e)), es))"

text \<open>
  \<open>process_folder\<close> receives the pydantic \<open>UploadItem\<close> from \<open>upload_task\<close> and, in
  its recursive call, the child's dict from the listing. Reading an attribute
  (\<open>folder_item.name\<close>) of anything but the model raises \<open>AttributeError\<close>.
\<close>

datatype folder_arg = Model UploadItem | Raw json

fun folder_attr :: "string \<Rightarrow> (UploadItem \<Rightarrow> string) \<Rightarrow> folder_arg \<Rightarrow> exn + string" where
  "folder_attr a sel (Model item) = Inr (sel item)"
| "folder_attr a sel (Raw v) =
     Inl (Exn PyAttributeError ([CHR 0x27] @ py_type_name v @ [CHR 0x27]
                                 @ '' object has no attribute '' @ repr_str a))"

text \<open>
  The test of the loop of \<open>process_folder\<close>:
  \<open>'folder' in file and file['folder']['childCount'] > 0\<close>.
\<close>

definition nonempty_folder :: "json \<Rightarrow> exn + bool" where
  "nonempty_folder file =
     (case py_in ''folder'' file of
        Inl e \<Rightarrow> Inl e
      | Inr False \<Rightarrow> Inr False
      | Inr True \<Rightarrow>
          (case getitem file ''folder'' of
             Inl e \<Rightarrow> Inl e
           | Inr f \<Rightarrow> (case getitem f ''childCount'' of Inl e \<Rightarrow> Inl e | Inr c \<Rightarrow> py_gt0 c)))"

text \<open>
  The item that the loop builds for a child that is not a folder:
  \<open>UploadItem(id=file['id'], spId=file['id'], driveId=file['parentReference']['driveId'],
  name=file['name'], type='File')\<close>. No \<open>fileSize\<close> is passed.
\<close>

definition child_item :: "json \<Rightarrow> exn + UploadItem" where
  "child_item file =
     (case getitem file ''id'' of
        Inl e \<Rightarrow> Inl e
      | Inr i \<Rightarrow>
     (case getitem file ''parentReference'' of
        Inl e \<Rightarrow> Inl e
      | Inr pr \<Rightarrow>
     (case getitem pr ''driveId'' of
        Inl e \<Rightarrow> Inl e
      | Inr d \<Rightarrow>
     (case getitem file ''name'' of
        Inl e \<Rightarrow> Inl e
      | Inr nm \<Rightarrow>
          UploadItem_init [(''id'', i), (''spId'', i), (''driveId'', d), (''name'', nm),
                           (''type'', JStr ''File'')]))))"

text \<open>
  \<open>process_folder\<close> and its loop over the listed children. The function creates and
  tags the container, creates the folder's own subfolder, lists the children, and for
  each child either recurses (a folder with a positive child count), skips it (a folder
  with none) or builds an item and calls \<open>process_item\<close>, whose result it ignores. The
  handler \<open>except Exception\<close> prints and raises again.
\<close>

function process_folder :: "env \<Rightarrow> SharepointDetails \<Rightarrow> CurateDetails \<Rightarrow> UserInfo \<Rightarrow> folder_arg \<Rightarrow> string \<Rightarrow> string option \<Rightarrow> event list \<Rightarrow> unit io"
  and process_children :: "env \<Rightarrow> SharepointDetails \<Rightarrow> CurateDetails \<Rightarrow> UserInfo \<Rightarrow> folder_arg \<Rightarrow> string \<Rightarrow> string option \<Rightarrow> json list \<Rightarrow> event list \<Rightarrow> unit io"
where
  "process_folder E sp curate user folder_item container access_token h =
     (case create_empty_folder E container curate h of
        (Inl e, es1) \<Rightarrow> (Inl e, es1)
      | (Inr r, es1) \<Rightarrow>
        if \<not> api_success r
        then (Inl (Exn PyException ''Error creating container folder: None''), es1)
        else
        (case folder_uuid_of r of
           Inl e \<Rightarrow> (Inl e, es1)
         | Inr folder_uuid \<Rightarrow>
           if \<not> truthy folder_uuid
           then (Inl (Exn PyException ''Error creating container folder: No UUID returned''), es1)
           else
           (case update_user_meta E folder_uuid curate (contributor user) (h @ es1) of
              (Inl e, es2) \<Rightarrow> (Inl e, es1 @ es2)
            | (Inr r2, es2) \<Rightarrow>
              if \<not> api_success r2
              then (Inl (Exn PyException ''Error updating user meta for container folder: None''),
                    es1 @ es2)
              else
              (case folder_attr ''name'' item_name folder_item of
                 Inl e \<Rightarrow> (Inl e, es1 @ es2)
               | Inr fname \<Rightarrow>
                 (case create_empty_folder E (container @ ''/'' @ fname) curate (h @ es1 @ es2) of
                    (Inl e, es3) \<Rightarrow> (Inl e, es1 @ es2 @ es3)
                  | (Inr r3, es3) \<Rightarrow>
                    if \<not> api_success r3
                    then (Inl (Exn PyException ''Error creating subfolder: None''), es1 @ es2 @ es3)
                    else
                    (case folder_uuid_of r3 of
                       Inl e \<Rightarrow> (Inl e, es1 @ es2 @ es3)
                     | Inr sub_uuid \<Rightarrow>
                       if \<not> truthy sub_uuid
                       then (Inl (Exn PyException ''Error creating subfolder: No UUID returned''),
                             es1 @ es2 @ es3)
                       else
                       (case folder_attr ''driveId'' driveId folder_item of
                          Inl e \<Rightarrow> (Inl e, es1 @ es2 @ es3)
                        | Inr fdrive \<Rightarrow>
                          (case folder_attr ''id'' item_id folder_item of
                             Inl e \<Rightarrow> (Inl e, es1 @ es2 @ es3)
                           | Inr fid \<Rightarrow>
                             (case list_files_in_folder E (siteId sp) fdrive fid access_token
                                     (h @ es1 @ es2 @ es3) of
                                (Inl e, es4) \<Rightarrow> (Inl e, es1 @ es2 @ es3 @ es4)
                              | (Inr files, es4) \<Rightarrow>
                                (case getitem files ''value'' of
                                   Inl e \<Rightarrow> (Inl e, es1 @ es2 @ es3 @ es4)
                                 | Inr v \<Rightarrow>
                                   (case py_iter v of
                                      Inl e \<Rightarrow> (Inl e, es1 @ es2 @ es3 @ es4)
                                    | Inr children \<Rightarrow>
                                      (case process_children E sp curate user folder_item container
                                              access_token children (h @ es1 @ es2 @ es3 @ es4) of
                                         (res, es5) \<Rightarrow> (res, es1 @ es2 @ es3 @ es4 @ es5)))))))))))))"
| "process_children E sp curate user folder_item container access_token [] h = (Inr (), [])"
| "process_children E sp curate user folder_item container access_token (file # rest) h =
     (case nonempty_folder file of
        Inl e \<Rightarrow> (Inl e, [])
      | Inr True \<Rightarrow>
          (case process_folder E sp curate user (Raw file) container access_token h of
             (Inl e, es) \<Rightarrow> (Inl e, es)
           | (Inr u, es) \<Rightarrow>
               (case process_children E sp curate user folder_item container access_token rest (h @ es) of
                  (res, es') \<Rightarrow> (res, es @ es')))
      | Inr False \<Rightarrow>
          (case py_in ''folder'' file of
             Inl e \<Rightarrow> (Inl e, [])
           | Inr True \<Rightarrow>
               process_children E sp curate user folder_item container access_token rest h
           | Inr False \<Rightarrow>
               (case child_item file of
                  Inl e \<Rightarrow> (Inl e, [])
                | Inr item \<Rightarrow>
                    (case folder_attr ''name'' item_name folder_item of
                       Inl e \<Rightarrow> (Inl e, [])
                     | Inr fname \<Rightarrow>
                         (case process_item E sp curate user item (Some fname) access_token container h of
                            (Inl e, es) \<Rightarrow> (Inl e, es)
                          | (Inr res, es) \<Rightarrow>
                              (case process_children E sp curate user folder_item container
                                      access_token rest (h @ es) of
                                 (res', es') \<Rightarrow> (res', es @ es')))))))"
  by pat_completeness auto
termination
  apply (relation "measures [\<lambda>x. case x of Inl (E, sp, cu, us, fi, c, t, h) \<Rightarrow> (case fi of Model _ \<Rightarrow> 3 | Raw _ \<Rightarrow> 0)
                                        | Inr (E, sp, cu, us, fi, c, t, xs, h) \<Rightarrow> 1,
                             \<lambda>x. case x of Inl _ \<Rightarrow> 0 | Inr (E, sp, cu, us, fi, c, t, xs, h) \<Rightarrow> length xs]")
  apply (auto split: folder_arg.splits)
  done

definition status_fields :: "string \<Rightarrow> json" where
  "status_fields status = JObj [(''PreservationStatus'', JStr status)]"

text \<open>
  The \<open>try\<close> block of the loop body of \<open>upload_task\<close>: the status write
  \<open>Initiating\<close>, the processing, and the write of the resulting status.
  \<open>result.get("error")\<close> is \<open>None\<close> for every dict that \<open>process_item\<close> returns.
\<close>

definition upload_one_body :: "env \<Rightarrow> SharepointDetails \<Rightarrow> CurateDetails \<Rightarrow> UserInfo \<Rightarrow> UploadItem \<Rightarrow> string \<Rightarrow> string option \<Rightarrow> event list \<Rightarrow> unit io" where
  "upload_one_body E sp curate user item container access_token h =
     (case update_drive_item_metadata E (siteId sp) (driveId item) (spId item) (item_name item)
             (status_fields ''Initiating'') access_token h of
        (Inl e, es0) \<Rightarrow> (Inl e, es0)
      | (Inr r0, es0) \<Rightarrow>
          (case (if item_type item = ''Folder'' then
                   (case process_folder E sp curate user (Model item) container access_token (h @ es0) of
                      (Inl e, es1) \<Rightarrow> (Inl e, es1)
                    | (Inr u, es1) \<Rightarrow> (Inr ''Success'', es1))
                 else
                   (case process_item E sp curate user item None access_token container (h @ es0) of
                      (Inl e, es1) \<Rightarrow> (Inl e, es1)
                    | (Inr result, es1) \<Rightarrow>
                        (Inr (if item_success result then ''Success''
                              else ''Failed: '' @ str_opt None), es1))) of
             (Inl e, es1) \<Rightarrow> (Inl e, es0 @ es1)
           | (Inr status, es1) \<Rightarrow>
               (case update_drive_item_metadata E (siteId sp) (driveId item) (spId item)
                       (item_name item) (status_fields status) access_token (h @ es0 @ es1) of
                  (Inl e, es2) \<Rightarrow> (Inl e, es0 @ es1 @ es2)
                | (Inr r2, es2) \<Rightarrow> (Inr (), es0 @ es1 @ es2))))"

text \<open>
  The loop body with its handler: on any exception the status \<open>Failed: str(e)\<close> is
  written; that write is not guarded, so what it raises leaves the loop.
\<close>

definition upload_one :: "env \<Rightarrow> SharepointDetails \<Rightarrow> CurateDetails \<Rightarrow> UserInfo \<Rightarrow> UploadItem \<Rightarrow> string \<Rightarrow> string option \<Rightarrow> event list \<Rightarrow> unit io" where
  "upload_one E sp curate user item container access_token h =
     (case upload_one_body E sp curate user item container access_token h of
        (Inr u, es) \<Rightarrow> (Inr (), es)
      | (Inl e, es) \<Rightarrow>
          (case update_drive_item_metadata E (siteId sp) (driveId item) (spId item)
                  (item_name item) (status_fields (''Failed: '' @ exn_str e)) access_token (h @ es) of
             (Inl e', es') \<Rightarrow> (Inl e', es @ es')
           | (Inr r, es') \<Rightarrow> (Inr (), es @ es')))"

fun upload_loop :: "env \<Rightarrow> SharepointDetails \<Rightarrow> CurateDetails \<Rightarrow> UserInfo \<Rightarrow> string \<Rightarrow> string option \<Rightarrow> UploadItem list \<Rightarrow> event list \<Rightarrow> unit io" where
  "upload_loop E sp curate user container access_token [] h = (Inr (), [])"
| "upload_loop E sp curate user container access_token (item # items) h =
     (case upload_one E sp curate user item container access_token h of
        (Inl e, es) \<Rightarrow> (Inl e, es)
      | (Inr u, es) \<Rightarrow>
          (case upload_loop E sp curate user container access_token items (h @ es) of
             (res, es') \<Rightarrow> (res, es @ es')))"

definition CLIENT_ID :: string where
  "CLIENT_ID = []"

definition CLIENT_SECRET :: string where
  "CLIENT_SECRET = []"

definition TENANT_ID :: string where
  "TENANT_ID = []"

definition upload_container_name_format :: "env \<Rightarrow> event list \<Rightarrow> string" where
  "upload_container_name_format E h = ''SharePointUpload_'' @ now_stamp E h"

text \<open>
  \<open>upload_task\<close>: the token, the empty-batch return, the container name, the loop. The
  outer handler prints and raises again.
\<close>

definition upload_task :: "env \<Rightarrow> SharePointPackage \<Rightarrow> event list \<Rightarrow> unit io" where
  "upload_task E data h =
     (case get_access_token E CLIENT_ID TENANT_ID CLIENT_SECRET h of
        (Inl e, es) \<Rightarrow> (Inl e, es)
      | (Inr access_token, es) \<Rightarrow>
          if uploadItems data = [] then (Inr (), es)
          else
            (case upload_loop E (sharepointDetails data) (curateDetails data) (userInfo data)
                    (upload_container_name_format E (h @ es)) access_token (uploadItems data)
                    (h @ es) of
               (res, es') \<Rightarrow> (res, es @ es')))"

section \<open>Observations on the events of a run\<close>

text \<open>
  The transfer path that a run of \<open>upload_graph_file_to_s3\<close> took, read off its first
  event: the buffered path begins with \<open>requests.get\<close> of the content, the streaming
  path with the boto3 client for the presigned URL.
\<close>

datatype transfer_path = Buffered | Streaming

fun path_of_events :: "event list \<Rightarrow> transfer_path option" where
  "path_of_events (Requests GET url None # es) = Some Buffered"
| "path_of_events (Boto3Client endpoint_url key # es) = Some Streaming"
| "path_of_events es = None"

section \<open>Concrete environments and inputs\<close>

text \<open>A reading of decimal digit strings, used as \<open>int(s)\<close> in the concrete runs.\<close>

fun digits_value :: "nat \<Rightarrow> string \<Rightarrow> nat option" where
  "digits_value acc [] = Some acc"
| "digits_value acc (c # cs) =
     (if 48 \<le> (of_char c :: nat) \<and> (of_char c :: nat) \<le> 57
      then digits_value (10 * acc + (of_char c - 48)) cs
      else None)"

definition decimal_int :: "string \<Rightarrow> int option" where
  "decimal_int s = (if s = [] then None else map_option int (digits_value 0 s))"

definition ok_response :: "json \<Rightarrow> response" where
  "ok_response j =
     \<lparr>status_code = 200, raise_for_status = None, content_length_header = None,
      content = ''abc'', resp_json = Inr j, resp_text = []\<rparr>"

definition created_node :: json where
  "created_node = JObj [(''Children'', JArr [JObj [(''Uuid'', JStr ''node-1'')]])]"

text \<open>An environment in which every call succeeds and a listed folder has no children.\<close>

definition calm_env :: env where
  "calm_env =
     \<lparr>py_int = decimal_int,
      now_stamp = (\<lambda>h. ''20240101120000''),
      requests_get = (\<lambda>h url. Inr (ok_response (JObj [(''value'', JArr [])]))),
      requests_post = (\<lambda>h url body. Inr (ok_response created_node)),
      requests_put = (\<lambda>h url body. Inr (ok_response JNull)),
      requests_patch = (\<lambda>h url body. Inr (ok_response JNull)),
      httpx_stream = (\<lambda>h m url. Inr (ok_response JNull)),
      boto3_client = (\<lambda>h endpoint_url key. None),
      generate_presigned_url = (\<lambda>h key. Inr ''https://signed.example/put''),
      put_object = (\<lambda>h bucket key path. None),
      tempfile_create = (\<lambda>h. Inr ''/tmp/tmpfile''),
      tempfile_write = (\<lambda>h path bytes. None),
      tempfile_flush = (\<lambda>h path. None),
      os_fsync = (\<lambda>h path. None),
      os_getsize = (\<lambda>h path. Inr 3),
      open_read = (\<lambda>h path. None),
      os_unlink = (\<lambda>h path. None),
      file_write = (\<lambda>h path txt. None)\<rparr>"

definition site :: SharepointDetails where
  "site = \<lparr>drivePath = ''Documents'', siteId = ''site-1''\<rparr>"

definition store :: CurateDetails where
  "store = \<lparr>apiKey = ''key'', siteUrl = ''curate.example''\<rparr>"

definition alice :: UserInfo where
  "alice = \<lparr>user_name = ''Alice'', user_email = ''alice@example.org''\<rparr>"

definition file_of_size :: "string \<Rightarrow> UploadItem" where
  "file_of_size sz =
     \<lparr>item_id = ''item-1'', spId = ''sp-1'', driveId = ''drive-1'', item_name = ''a.bin'',
      fileSize = sz, item_type = ''File''\<rparr>"

text \<open>The events of the download to the temporary file \<open>p\<close>, up to \<open>os.fsync\<close>.\<close>

definition download_events :: "string \<Rightarrow> string \<Rightarrow> string \<Rightarrow> event list" where
  "download_events url p bytes =
     [Requests GET url None, TempCreate, TempWrite p bytes, TempFlush p, TempFsync p]"

fun is_put_object :: "event \<Rightarrow> bool" where
  "is_put_object (PutObject b k f) = True"
| "is_put_object ev = False"

text \<open>
  The source answers with a \<open>Content-Length\<close> of 10 and a body of three bytes; the
  temporary file holds the three bytes.
\<close>

definition long_header_env :: env where
  "long_header_env =
     calm_env\<lparr>requests_get :=
       (\<lambda>h url. Inr ((ok_response JNull)\<lparr>content_length_header := Some ''10''\<rparr>))\<rparr>"

text \<open>The temporary file is two bytes long on disk, the downloaded body three.\<close>

definition short_file_env :: env where
  "short_file_env = calm_env\<lparr>os_getsize := (\<lambda>h path. Inr 2)\<rparr>"

text \<open>The object store refuses \<open>put_object\<close>.\<close>

definition upload_denied_env :: env where
  "upload_denied_env =
     calm_env\<lparr>put_object := (\<lambda>h bucket key path. Some (Exn BotoClientError ''AccessDenied''))\<rparr>"

definition source_url :: string where
  "source_url = ''https://graph.example/content''"

section \<open>The size ceiling\<close>

text \<open>
  Claim C3. A file item whose declared size is above 1 GiB: per-item processing returns
  at once the failure dict whose message sends the user to the command line client or
  sftp, and emits no event at all: no folder creation, no presigned URL, no content
  request.
\<close>

theorem size_limit_rejected_without_calls:
  assumes "py_int E (fileSize item) = Some n" and "n > 1024 * 1024 * 1024"
  shows "process_item E sp curate user item folder access_token container h
           = (Inr (ItemFailure size_limit_message), [])"
  using assms by (simp add: process_item_def process_item_body_def)

lemma decimal_int_two_billion: "decimal_int ''2000000000'' = Some 2000000000"
  by (simp add: decimal_int_def)

theorem size_limit_rejected_without_calls_witness:
  "py_int calm_env (fileSize (file_of_size ''2000000000'')) = Some 2000000000
   \<and> (2000000000 :: int) > 1024 * 1024 * 1024
   \<and> process_item calm_env site store alice (file_of_size ''2000000000'') None (Some ''tok'')
        ''SharePointUpload_20240101120000'' []
        = (Inr (ItemFailure size_limit_message), [])"
proof -
  have a: "py_int calm_env (fileSize (file_of_size ''2000000000'')) = Some 2000000000"
    by (simp add: calm_env_def file_of_size_def decimal_int_two_billion)
  have b: "(2000000000 :: int) > 1024 * 1024 * 1024" by simp
  show ?thesis
    using a b size_limit_rejected_without_calls [OF a b] by simp
qed

section \<open>The choice of the transfer path\<close>

lemma upload_large_first_event:
  "\<exists>es. snd (upload_large_graph_file_to_s3 E url tok path curate h) = Requests GET url None # es"
  by (simp add: upload_large_graph_file_to_s3_def upload_large_body_def Let_def
           split: sum.split option.split prod.split)

lemma presigned_first_event:
  "\<exists>es. snd (build_presigned_put_url E path curate h)
          = Boto3Client (''https://'' @ siteUrl curate) ''gateway'' # es"
  by (simp add: build_presigned_put_url_def Let_def split: sum.split option.split)

text \<open>
  Claim C2. With the default threshold, the engine takes the buffered path exactly when
  the declared size reads as an integer of at least 100 MiB, and the streaming path
  exactly when it reads as an integer below 100 MiB.
\<close>

theorem transfer_path_by_declared_size:
  "(path_of_events (snd (upload_graph_file_to_s3 E url path curate tok fs
                           default_multipart_threshold h)) = Some Buffered
      \<longleftrightarrow> (\<exists>n. py_int E fs = Some n \<and> n \<ge> 100 * 1024 * 1024))
   \<and> (path_of_events (snd (upload_graph_file_to_s3 E url path curate tok fs
                           default_multipart_threshold h)) = Some Streaming
      \<longleftrightarrow> (\<exists>n. py_int E fs = Some n \<and> n < 100 * 1024 * 1024))"
proof (cases "py_int E fs")
  case None
  then show ?thesis by (simp add: upload_graph_file_to_s3_def)
next
  case (Some n)
  obtain es where L:
    "snd (upload_large_graph_file_to_s3 E url tok path curate h) = Requests GET url None # es"
    using upload_large_first_event by blast
  obtain es' where P:
    "snd (build_presigned_put_url E path curate h)
       = Boto3Client (''https://'' @ siteUrl curate) ''gateway'' # es'"
    using presigned_first_event by blast
  show ?thesis
  proof (cases "n \<ge> 100 * 1024 * 1024")
    case True
    with Some L show ?thesis
      by (simp add: upload_graph_file_to_s3_def default_multipart_threshold_def)
  next
    case False
    with Some P show ?thesis
      by (cases "build_presigned_put_url E path curate h")
         (auto simp: upload_graph_file_to_s3_def default_multipart_threshold_def
               split: sum.split prod.split)
  qed
qed

section \<open>The buffered path\<close>

text \<open>
  Claim C4, as stated, fails: the check of the buffered path does not read the
  \<open>Content-Length\<close> header. Here the header says 10, the body has three bytes, and the
  transfer succeeds and uploads the object.
\<close>

theorem content_length_header_not_consulted_counterexample:
  "requests_get long_header_env [] source_url
      = Inr ((ok_response JNull)\<lparr>content_length_header := Some ''10''\<rparr>)
   \<and> length (content ((ok_response JNull)\<lparr>content_length_header := Some ''10''\<rparr>)) = 3
   \<and> fst (upload_large_graph_file_to_s3 long_header_env source_url (Some ''tok'') ''C/a.bin'' store [])
       = Inr \<lparr>t_success = True, t_status = Some 200, t_error = None, t_item = ''C/a.bin''\<rparr>
   \<and> PutObject ''io'' (quarantine ''C/a.bin'') ''/tmp/tmpfile''
       \<in> set (snd (upload_large_graph_file_to_s3 long_header_env source_url (Some ''tok'')
                     ''C/a.bin'' store []))"
  by (simp add: long_header_env_def calm_env_def ok_response_def store_def
        upload_large_graph_file_to_s3_def upload_large_body_def Let_def)

text \<open>
  Claim C4, amended. After the downloaded body is written to the temporary file, the
  size of the file on disk is compared with the length of the downloaded body. When
  they differ, the result has \<open>success = False\<close> with the message
  \<open>File size mismatch: expected ..., got ...\<close>, and the run ends after the second
  \<open>getsize\<close>: no \<open>put_object\<close> is among its events.
\<close>

theorem size_mismatch_fails_before_upload:
  assumes "requests_get E h url = Inr r"
    and "raise_for_status r = None"
    and "content r \<noteq> []"
    and "tempfile_create E (h @ [Requests GET url None]) = Inr p"
    and "tempfile_write E (h @ [Requests GET url None, TempCreate]) p (content r) = None"
    and "tempfile_flush E (h @ [Requests GET url None, TempCreate, TempWrite p (content r)]) p = None"
    and "os_fsync E (h @ [Requests GET url None, TempCreate, TempWrite p (content r), TempFlush p]) p
           = None"
    and "os_getsize E (h @ download_events url p (content r)) p = Inr sz"
    and "sz \<noteq> length (content r)"
    and "os_getsize E (h @ download_events url p (content r) @ [GetSize p]) p = Inr sz2"
  shows "upload_large_graph_file_to_s3 E url tok path curate h
           = (Inr \<lparr>t_success = False, t_status = Some 500,
                   t_error = Some (''File size mismatch: expected '' @ str_nat (length (content r))
                                    @ '', got '' @ str_nat sz2),
                   t_item = path\<rparr>,
              download_events url p (content r) @ [GetSize p, GetSize p])
         \<and> \<not> list_ex is_put_object (download_events url p (content r) @ [GetSize p, GetSize p])"
  using assms
  by (simp add: upload_large_graph_file_to_s3_def upload_large_body_def Let_def download_events_def)

theorem size_mismatch_fails_before_upload_witness:
  "requests_get short_file_env [] source_url = Inr (ok_response (JObj [(''value'', JArr [])]))
   \<and> content (ok_response (JObj [(''value'', JArr [])])) \<noteq> []
   \<and> os_getsize short_file_env
        ([] @ download_events source_url ''/tmp/tmpfile''
                (content (ok_response (JObj [(''value'', JArr [])]))))
        ''/tmp/tmpfile'' = Inr 2
   \<and> (2 :: nat) \<noteq> length (content (ok_response (JObj [(''value'', JArr [])])))
   \<and> upload_large_graph_file_to_s3 short_file_env source_url (Some ''tok'') ''C/a.bin'' store []
        = (Inr \<lparr>t_success = False, t_status = Some 500,
                t_error = Some ''File size mismatch: expected 3, got 2'', t_item = ''C/a.bin''\<rparr>,
           download_events source_url ''/tmp/tmpfile'' ''abc''
             @ [GetSize ''/tmp/tmpfile'', GetSize ''/tmp/tmpfile''])"
  using size_mismatch_fails_before_upload
          [of short_file_env "[]" source_url "ok_response (JObj [(''value'', JArr [])])"
              "''/tmp/tmpfile''" 2 2 "Some ''tok''" "''C/a.bin''" store]
  by (simp add: short_file_env_def calm_env_def ok_response_def str_nat.simps)

text \<open>
  Claim C5 at a failing input: the object store refuses \<open>put_object\<close>. The temporary
  file was created, the result is a failure, and \<open>os.unlink\<close> is not among the events:
  the handler returns the failure dict without removing the file.
\<close>

theorem temp_file_left_after_failed_upload:
  "fst (upload_large_graph_file_to_s3 upload_denied_env source_url (Some ''tok'') ''C/a.bin'' store [])
     = Inr \<lparr>t_success = False, t_status = Some 500, t_error = Some ''AccessDenied'',
            t_item = ''C/a.bin''\<rparr>
   \<and> TempCreate \<in> set (snd (upload_large_graph_file_to_s3 upload_denied_env source_url
                               (Some ''tok'') ''C/a.bin'' store []))
   \<and> Unlink ''/tmp/tmpfile'' \<notin> set (snd (upload_large_graph_file_to_s3 upload_denied_env
                                           source_url (Some ''tok'') ''C/a.bin'' store []))"
  by (simp add: upload_denied_env_def calm_env_def ok_response_def store_def
        upload_large_graph_file_to_s3_def upload_large_body_def Let_def)

end
